theory Spec2Isabelle
  imports Complex_Main "HOL-Library.Word"
begin

section \<open>Strings and paths\<close>

text \<open>
  The helpers of \<^verbatim>\<open>_util.py\<close> work on byte strings (the module is Python 2 code of
  2017), so a string is a \<^typ>\<open>char list\<close>. Three library functions decide what the
  helpers return and are written out here: \<^verbatim>\<open>str.rstrip()\<close>, \<^verbatim>\<open>str.split(sep)\<close>
  and \<^verbatim>\<open>os.path.join\<close> (the POSIX one).
\<close>

text \<open>The characters \<^verbatim>\<open>str.rstrip()\<close> removes when called without an argument:
  space, tab, line feed, vertical tab, form feed and carriage return.\<close>

definition isspace :: "char \<Rightarrow> bool" where
  "isspace c = (c \<in> set [CHR '' '', CHR 0x09, CHR 0x0A, CHR 0x0B, CHR 0x0C, CHR 0x0D])"

text \<open>\<^verbatim>\<open>s.rstrip()\<close>: the longest run of whitespace at the end of \<open>s\<close> is dropped.\<close>

fun rstrip :: "string \<Rightarrow> string" where
  "rstrip [] = []"
| "rstrip (c # cs) = (let r = rstrip cs in if r = [] \<and> isspace c then [] else c # r)"

text \<open>
  \<^verbatim>\<open>s.split(sep)\<close> for a separator of one character: every occurrence of \<open>sep\<close>
  ends a part, empty parts are kept, and the result is never empty
  (\<^verbatim>\<open>''.split(',') == ['']\<close>).
\<close>

fun str_split :: "'a \<Rightarrow> 'a list \<Rightarrow> 'a list list" where
  "str_split sep [] = [[]]"
| "str_split sep (c # cs) =
     (if c = sep then [] # str_split sep cs
      else (case str_split sep cs of
              [] \<Rightarrow> [[c]]
            | p # ps \<Rightarrow> (c # p) # ps))"

text \<open>
  The inverse of \<open>str_split\<close>, \<^verbatim>\<open>sep.join(parts)\<close>; the module does not call it, it
  is here to state that \<open>str_split\<close> loses nothing.
\<close>

fun str_join :: "'a \<Rightarrow> 'a list list \<Rightarrow> 'a list" where
  "str_join sep [] = []"
| "str_join sep [p] = p"
| "str_join sep (p # q # ps) = p @ sep # str_join sep (q # ps)"

text \<open>
  \<^verbatim>\<open>os.path.join(a, b)\<close> of \<^verbatim>\<open>posixpath\<close>, for two components: an absolute \<open>b\<close>
  replaces the path built so far; otherwise \<open>b\<close> is appended, after a slash unless \<open>a\<close>
  is empty or already ends in one.
\<close>

definition path_join :: "string \<Rightarrow> string \<Rightarrow> string" where
  "path_join a b =
     (if b \<noteq> [] \<and> hd b = CHR ''/'' then b
      else if a = [] \<or> last a = CHR ''/'' then a @ b
      else a @ ''/'' @ b)"

section \<open>The I/O layer and its failures\<close>

text \<open>
  The module reads the outside world only through \<^verbatim>\<open>ml.util._file\<close>,
  \<^verbatim>\<open>file_io.get_matching_files\<close> and \<^verbatim>\<open>multiprocessing.cpu_count\<close>. None of them is
  code of this module, so they are parameters of the model, collected in one record.
  A call that can fail in the library returns a sum: \<open>Inl x\<close> is the exception \<open>x\<close> the
  library raised. \<open>open_local_or_gcs\<close> stands for opening the path in mode \<^verbatim>\<open>'r'\<close> and
  reading the whole file.
\<close>

record 'e env =
  file_exists :: "string \<Rightarrow> bool"
  open_local_or_gcs :: "string \<Rightarrow> 'e + string"
  glob_files :: "string \<Rightarrow> 'e + string list"
  get_matching_files :: "string \<Rightarrow> 'e + string list"
  cpu_count :: int

text \<open>
  What a helper can raise: the one \<^verbatim>\<open>Exception\<close> the module raises itself, with its
  message, or an exception of the I/O layer, passed on unchanged.
\<close>

datatype 'e error = Exception string | External 'e

section \<open>Locating the preprocessed data\<close>

definition get_latest_data_dir :: "'e env \<Rightarrow> string \<Rightarrow> 'e error + string" where
  "get_latest_data_dir env input_dir =
     (let latest_file = path_join input_dir ''latest'' in
      if \<not> file_exists env latest_file then
        Inl (Exception (''Cannot find '' @ [CHR 0x22] @ ''latest'' @ [CHR 0x22] @ '' file in ''
                        @ [CHR 0x22] @ input_dir @ [CHR 0x22] @ ''. ''
                        @ ''Please use a preprocessing output dir.''))
      else
        (case open_local_or_gcs env latest_file of
           Inl x \<Rightarrow> Inl (External x)
         | Inr content \<Rightarrow>
             (let dir_name = rstrip content in Inr (path_join input_dir dir_name))))"

definition get_train_eval_files ::
  "'e env \<Rightarrow> string \<Rightarrow> 'e error + (string list \<times> string list)" where
  "get_train_eval_files env input_dir =
     (case get_latest_data_dir env input_dir of
        Inl err \<Rightarrow> Inl err
      | Inr data_dir \<Rightarrow>
          (let train_pattern = path_join data_dir ''train*.tfrecord.gz'';
               eval_pattern = path_join data_dir ''eval*.tfrecord.gz''
           in case glob_files env train_pattern of
                Inl x \<Rightarrow> Inl (External x)
              | Inr train_files \<Rightarrow>
                  (case glob_files env eval_pattern of
                     Inl x \<Rightarrow> Inl (External x)
                   | Inr eval_files \<Rightarrow> Inr (train_files, eval_files))))"

definition get_labels :: "'e env \<Rightarrow> string \<Rightarrow> 'e error + string list" where
  "get_labels env input_dir =
     (case get_latest_data_dir env input_dir of
        Inl err \<Rightarrow> Inl err
      | Inr data_dir \<Rightarrow>
          (let labels_file = path_join data_dir ''labels'' in
           case open_local_or_gcs env labels_file of
             Inl x \<Rightarrow> Inl (External x)
           | Inr content \<Rightarrow> Inr (str_split (CHR 0x0A) (rstrip content))))"

section \<open>Building the input pipeline\<close>

text \<open>
  \<^verbatim>\<open>read_examples\<close> only calls TensorFlow constructors. Each constructor is modelled
  by the call it receives: the arguments, by the names TensorFlow gives them. The two
  tensors \<^verbatim>\<open>example_id\<close> and \<^verbatim>\<open>encoded_example\<close> are the two outputs of one
  \<^verbatim>\<open>read_up_to\<close> call and are represented by that call.
\<close>

datatype compression_type = NONE | ZLIB | GZIP

record string_input_producer =
  producer_string_tensor :: "string list"
  producer_num_epochs :: "int option"
  producer_shuffle :: bool

record read_up_to =
  reader_options :: compression_type
  reader_queue :: string_input_producer
  reader_num_records :: int

datatype batch_op =
    is_Shuffle_batch: Shuffle_batch (op_tensors: read_up_to) (op_batch_size: int) (op_capacity: int)
      (op_min_after_dequeue: int) (op_enqueue_many: bool) (op_num_threads: int)
  | is_Batch: Batch (op_tensors: read_up_to) (op_batch_size: int) (op_capacity: int)
      (op_enqueue_many: bool) (op_num_threads: int)

text \<open>The inner loop: \<^verbatim>\<open>for path in e.split(','): files.extend(get_matching_files(path))\<close>.\<close>

fun extend_matching :: "'e env \<Rightarrow> string list \<Rightarrow> string list \<Rightarrow> 'e error + string list" where
  "extend_matching env [] files = Inr files"
| "extend_matching env (path # paths) files =
     (case get_matching_files env path of
        Inl x \<Rightarrow> Inl (External x)
      | Inr matching \<Rightarrow> extend_matching env paths (files @ matching))"

text \<open>The outer loop: \<^verbatim>\<open>for e in input_files\<close>.\<close>

fun collect_files :: "'e env \<Rightarrow> string list \<Rightarrow> string list \<Rightarrow> 'e error + string list" where
  "collect_files env [] files = Inr files"
| "collect_files env (e # es) files =
     (case extend_matching env (str_split CHR '','' e) files of
        Inl err \<Rightarrow> Inl err
      | Inr files' \<Rightarrow> collect_files env es files')"

text \<open>\<^verbatim>\<open>num_epochs or None\<close>: a falsy value (\<^verbatim>\<open>None\<close> or \<^verbatim>\<open>0\<close>) gives \<^verbatim>\<open>None\<close>.\<close>

definition or_None :: "int option \<Rightarrow> int option" where
  "or_None num_epochs =
     (case num_epochs of None \<Rightarrow> None | Some n \<Rightarrow> if n = 0 then None else Some n)"

text \<open>
  TensorFlow checks the arguments of a call and raises when it refuses them, so a
  constructor can fail as the I/O layer can. Which calls TensorFlow refuses is not code of
  this module: it is a parameter of the model, one field for each constructor
  \<^verbatim>\<open>read_examples\<close> calls, giving the exception raised on a call, if any. The
  \<^verbatim>\<open>TFRecordReader\<close> is built with constant options and is part of the \<^verbatim>\<open>read_up_to\<close>
  call.
\<close>

record 'e tensorflow =
  string_input_producer_raises :: "string_input_producer \<Rightarrow> 'e option"
  read_up_to_raises :: "read_up_to \<Rightarrow> 'e option"
  shuffle_batch_raises :: "batch_op \<Rightarrow> 'e option"
  batch_raises :: "batch_op \<Rightarrow> 'e option"

text \<open>\<^verbatim>\<open>tf.train.string_input_producer(string_tensor, num_epochs, shuffle)\<close>.\<close>

definition tf_string_input_producer ::
  "'e tensorflow \<Rightarrow> string list \<Rightarrow> int option \<Rightarrow> bool \<Rightarrow> 'e error + string_input_producer" where
  "tf_string_input_producer TF string_tensor num_epochs shuffle =
     (let call = \<lparr>producer_string_tensor = string_tensor,
                   producer_num_epochs = num_epochs,
                   producer_shuffle = shuffle\<rparr>
      in case string_input_producer_raises TF call of
           Some x \<Rightarrow> Inl (External x)
         | None \<Rightarrow> Inr call)"

text \<open>\<^verbatim>\<open>tf.TFRecordReader(options=options).read_up_to(queue, num_records)\<close>.\<close>

definition tf_read_up_to ::
  "'e tensorflow \<Rightarrow> compression_type \<Rightarrow> string_input_producer \<Rightarrow> int \<Rightarrow> 'e error + read_up_to" where
  "tf_read_up_to TF options queue num_records =
     (let call = \<lparr>reader_options = options,
                   reader_queue = queue,
                   reader_num_records = num_records\<rparr>
      in case read_up_to_raises TF call of
           Some x \<Rightarrow> Inl (External x)
         | None \<Rightarrow> Inr call)"

text \<open>\<^verbatim>\<open>tf.train.shuffle_batch(tensors, batch_size, capacity, min_after_dequeue,
  enqueue_many=..., num_threads=...)\<close>.\<close>

definition tf_shuffle_batch ::
  "'e tensorflow \<Rightarrow> read_up_to \<Rightarrow> int \<Rightarrow> int \<Rightarrow> int \<Rightarrow> bool \<Rightarrow> int \<Rightarrow> 'e error + batch_op" where
  "tf_shuffle_batch TF tensors batch_size capacity min_after_dequeue enqueue_many num_threads =
     (let call = Shuffle_batch tensors batch_size capacity min_after_dequeue
                   enqueue_many num_threads
      in case shuffle_batch_raises TF call of
           Some x \<Rightarrow> Inl (External x)
         | None \<Rightarrow> Inr call)"

text \<open>\<^verbatim>\<open>tf.train.batch(tensors, batch_size, capacity=..., enqueue_many=...,
  num_threads=...)\<close>.\<close>

definition tf_batch ::
  "'e tensorflow \<Rightarrow> read_up_to \<Rightarrow> int \<Rightarrow> int \<Rightarrow> bool \<Rightarrow> int \<Rightarrow> 'e error + batch_op" where
  "tf_batch TF tensors batch_size capacity enqueue_many num_threads =
     (let call = Batch tensors batch_size capacity enqueue_many num_threads
      in case batch_raises TF call of
           Some x \<Rightarrow> Inl (External x)
         | None \<Rightarrow> Inr call)"

text \<open>
  \<^verbatim>\<open>read_examples\<close>, call by call in the order of the source: the files are collected,
  then the filename queue is built (line 96), then the reader (lines 98 to 101), then
  the batch op of the branch taken. The first call that raises ends the function.
\<close>

definition read_examples ::
  "'e tensorflow \<Rightarrow> 'e env \<Rightarrow> string list \<Rightarrow> int \<Rightarrow> bool \<Rightarrow> int option
     \<Rightarrow> 'e error + batch_op" where
  "read_examples TF env input_files batch_size shuffle num_epochs =
     (case collect_files env input_files [] of
        Inl err \<Rightarrow> Inl err
      | Inr files \<Rightarrow>
          (let thread_count = cpu_count env;
               min_after_dequeue = 1000;
               queue_size_multiplier = thread_count + 3;
               num_epochs = or_None num_epochs
           in case tf_string_input_producer TF files num_epochs shuffle of
                Inl err \<Rightarrow> Inl err
              | Inr filename_queue \<Rightarrow>
                  (case tf_read_up_to TF GZIP filename_queue batch_size of
                     Inl err \<Rightarrow> Inl err
                   | Inr examples \<Rightarrow>
                       if shuffle then
                         (let capacity = min_after_dequeue + queue_size_multiplier * batch_size
                          in tf_shuffle_batch TF examples batch_size capacity
                               min_after_dequeue True thread_count)
                       else
                         (let capacity = queue_size_multiplier * batch_size
                          in tf_batch TF examples batch_size capacity True thread_count))))"

text \<open>
  The exception TensorFlow raises on the way to a batch op, if any: the calls that lead
  to the op are its filename queue, its reader and the op itself, and they are made in
  this order.
\<close>

definition tensorflow_raises :: "'e tensorflow \<Rightarrow> batch_op \<Rightarrow> 'e option" where
  "tensorflow_raises TF call =
     (case string_input_producer_raises TF (reader_queue (op_tensors call)) of
        Some x \<Rightarrow> Some x
      | None \<Rightarrow>
          (case read_up_to_raises TF (op_tensors call) of
             Some x \<Rightarrow> Some x
           | None \<Rightarrow>
               if is_Shuffle_batch call then shuffle_batch_raises TF call
               else batch_raises TF call))"

section \<open>Command-line arguments\<close>

text \<open>\<^verbatim>\<open>x in xs\<close> on a Python list: the elements are compared with \<open>x\<close> from the
  front, and the first equal one ends the search.\<close>

fun list_contains :: "'a list \<Rightarrow> 'a \<Rightarrow> bool" where
  "list_contains [] x = False"
| "list_contains (y # ys) x = (if y = x then True else list_contains ys x)"

text \<open>\<^verbatim>\<open>xs.extend(items)\<close>: the items are appended one after the other.\<close>

fun list_extend :: "'a list \<Rightarrow> 'a list \<Rightarrow> 'a list" where
  "list_extend xs [] = xs"
| "list_extend xs (i # items) = list_extend (xs @ [i]) items"

text \<open>
  \<^verbatim>\<open>override_if_not_in_args\<close> returns nothing and changes \<open>args\<close> in place; the model
  returns the list \<open>args\<close> is afterwards.
\<close>

definition override_if_not_in_args :: "'a \<Rightarrow> 'a \<Rightarrow> 'a list \<Rightarrow> 'a list" where
  "override_if_not_in_args flag argument args =
     (if \<not> list_contains args flag then list_extend args [flag, argument] else args)"

section \<open>Aggregated metrics\<close>

text \<open>
  The metrics are TensorFlow graphs over two variables each. The \<^verbatim>\<open>float32\<close>
  arithmetic is TensorFlow's and is a parameter of the model: the constant \<^verbatim>\<open>0.0\<close>,
  addition, division and \<^verbatim>\<open>tf.cast(_, tf.float32)\<close> of an \<^verbatim>\<open>int32\<close>. So is
  \<^verbatim>\<open>tf.nn.in_top_k\<close>, which gives one truth value for each row of the batch. An
  \<^verbatim>\<open>int32\<close> is a 32-bit word, read as a signed number by \<^const>\<open>sint\<close>.
\<close>

record ('f, 'lg, 'lb) tf =
  f_zero :: 'f
  f_add :: "'f \<Rightarrow> 'f \<Rightarrow> 'f"
  f_div :: "'f \<Rightarrow> 'f \<Rightarrow> 'f"
  f_cast :: "32 word \<Rightarrow> 'f"
  in_top_k :: "'lg \<Rightarrow> 'lb \<Rightarrow> int \<Rightarrow> bool list"

text \<open>
  A tensor that depends on the inputs of a step is a function of what the step is fed
  (\<open>'i\<close>). An update op changes the variables (\<open>'s\<close>) when it is run with a feed; a
  session runs the update ops of a step one after the other.
\<close>

definition run_step :: "('i \<Rightarrow> 's \<Rightarrow> 's) list \<Rightarrow> 'i \<Rightarrow> 's \<Rightarrow> 's" where
  "run_step update_ops feed s = fold (\<lambda>update. update feed) update_ops s"

definition run_steps :: "('i \<Rightarrow> 's \<Rightarrow> 's) list \<Rightarrow> 'i list \<Rightarrow> 's \<Rightarrow> 's" where
  "run_steps update_ops feeds s = fold (run_step update_ops) feeds s"

record 'f loss_variables =
  total_loss :: 'f
  loss_count :: "32 word"

text \<open>\<^verbatim>\<open>total_loss = tf.Variable(0.0, False)\<close>, \<^verbatim>\<open>loss_count = tf.Variable(0, False)\<close>.\<close>

definition loss_initial :: "('f, 'lg, 'lb) tf \<Rightarrow> 'f loss_variables" where
  "loss_initial T = \<lparr>total_loss = f_zero T, loss_count = 0\<rparr>"

definition loss ::
  "('f, 'lg, 'lb) tf \<Rightarrow> ('i \<Rightarrow> 'f) \<Rightarrow>
   ('i \<Rightarrow> 'f loss_variables \<Rightarrow> 'f loss_variables) list \<times> ('f loss_variables \<Rightarrow> 'f)" where
  "loss T loss_value =
     (let total_loss_update =
            (\<lambda>feed s. s\<lparr>total_loss := f_add T (total_loss s) (loss_value feed)\<rparr>);
          loss_count_update = (\<lambda>feed s. s\<lparr>loss_count := loss_count s + 1\<rparr>);
          loss_op = (\<lambda>s. f_div T (total_loss s) (f_cast T (loss_count s)))
      in ([total_loss_update, loss_count_update], loss_op))"

text \<open>\<^verbatim>\<open>tf.cast(_, tf.int32)\<close> of a truth value, and \<^verbatim>\<open>tf.reduce_sum\<close> of a vector
  of \<^verbatim>\<open>int32\<close>.\<close>

definition cast_int32 :: "bool \<Rightarrow> 32 word" where
  "cast_int32 b = (if b then 1 else 0)"

definition reduce_sum :: "32 word list \<Rightarrow> 32 word" where
  "reduce_sum xs = foldl (+) 0 xs"

record accuracy_variables =
  correct_count :: "32 word"
  incorrect_count :: "32 word"

text \<open>\<^verbatim>\<open>correct_count = tf.Variable(0, False)\<close>,
  \<^verbatim>\<open>incorrect_count = tf.Variable(0, False)\<close>.\<close>

definition accuracy_initial :: accuracy_variables where
  "accuracy_initial = \<lparr>correct_count = 0, incorrect_count = 0\<rparr>"

definition accuracy ::
  "('f, 'lg, 'lb) tf \<Rightarrow> ('i \<Rightarrow> 'lg) \<Rightarrow> ('i \<Rightarrow> 'lb) \<Rightarrow>
   ('i \<Rightarrow> accuracy_variables \<Rightarrow> accuracy_variables) list \<times> (accuracy_variables \<Rightarrow> 'f)" where
  "accuracy T logits labels =
     (let is_correct = (\<lambda>feed. in_top_k T (logits feed) (labels feed) 1);
          correct = (\<lambda>feed. reduce_sum (map cast_int32 (is_correct feed)));
          incorrect = (\<lambda>feed. reduce_sum (map cast_int32 (map Not (is_correct feed))));
          correct_count_update =
            (\<lambda>feed s. s\<lparr>correct_count := correct_count s + correct feed\<rparr>);
          incorrect_count_update =
            (\<lambda>feed s. s\<lparr>incorrect_count := incorrect_count s + incorrect feed\<rparr>);
          accuracy_op =
            (\<lambda>s. f_div T (f_cast T (correct_count s))
                         (f_cast T (correct_count s + incorrect_count s)))
      in ([correct_count_update, incorrect_count_update], accuracy_op))"

section \<open>A preprocessing output directory\<close>

text \<open>
  A concrete I/O layer for examples: the directory \<^verbatim>\<open>out\<close> holds a marker file naming
  the version \<^verbatim>\<open>v3\<close>, which holds two training shards, one evaluation shard and three
  labels. Nothing else exists, and reading anything else fails. The machine has four
  cores.
\<close>

definition example_files :: "string \<Rightarrow> string list" where
  "example_files pattern =
     (if pattern = ''out/v3/train*.tfrecord.gz''
      then [''out/v3/train-0.tfrecord.gz'', ''out/v3/train-1.tfrecord.gz'']
      else if pattern = ''out/v3/eval*.tfrecord.gz'' then [''out/v3/eval-0.tfrecord.gz'']
      else [])"

definition example_env :: "string env" where
  "example_env =
     \<lparr>file_exists = (\<lambda>p. p = ''out/latest'' \<or> p = ''out/v3/labels''),
      open_local_or_gcs =
        (\<lambda>p. if p = ''out/latest'' then Inr (''v3'' @ [CHR 0x0A])
             else if p = ''out/v3/labels''
             then Inr (''daisy'' @ [CHR 0x0A] @ ''rose'' @ [CHR 0x0A] @ ''tulip'' @ [CHR 0x0A])
             else Inl ''IOError''),
      glob_files = (\<lambda>p. Inr (example_files p)),
      get_matching_files = (\<lambda>p. Inr (example_files p)),
      cpu_count = 4\<rparr>"

text \<open>
  A TensorFlow for examples. It refuses a filename queue over no file or with a negative
  number of epochs, and a batch op whose batch size is not positive; it accepts every
  other call.
\<close>

definition example_tensorflow :: "string tensorflow" where
  "example_tensorflow =
     \<lparr>string_input_producer_raises =
        (\<lambda>call. if producer_string_tensor call = [] then Some ''ValueError''
                 else (case producer_num_epochs call of
                         None \<Rightarrow> None
                       | Some n \<Rightarrow> if n < 0 then Some ''ValueError'' else None)),
      read_up_to_raises = (\<lambda>call. None),
      shuffle_batch_raises =
        (\<lambda>call. if op_batch_size call \<le> 0 then Some ''ValueError'' else None),
      batch_raises =
        (\<lambda>call. if op_batch_size call \<le> 0 then Some ''ValueError'' else None)\<rparr>"

text \<open>
  Exact arithmetic on the rationals in the place of \<^verbatim>\<open>float32\<close>, and a top-1 test on
  rows of scores: a label is in the top 1 when no class of its row scores higher.
\<close>

definition example_tf :: "(rat, rat list list, nat list) tf" where
  "example_tf =
     \<lparr>f_zero = 0, f_add = (+), f_div = (/), f_cast = (\<lambda>w. of_int (sint w)),
      in_top_k = (\<lambda>logits labels k.
        map (\<lambda>(row, label). label < length row \<and> (\<forall>x \<in> set row. x \<le> row ! label))
            (zip logits labels))\<rparr>"

section \<open>Properties\<close>

subsection \<open>The library functions as written out above\<close>

lemma rstrip_Nil_iff: "rstrip s = [] \<longleftrightarrow> (\<forall>c \<in> set s. isspace c)"
  by (induction s) (auto simp: Let_def)

lemma rstrip_append_spaces: "\<forall>c \<in> set ws. isspace c \<Longrightarrow> rstrip (s @ ws) = rstrip s"
  by (induction s) (auto simp: Let_def rstrip_Nil_iff)

lemma rstrip_decompose: "\<exists>ws. s = rstrip s @ ws \<and> (\<forall>c \<in> set ws. isspace c)"
proof (induction s)
  case Nil
  show ?case by simp
next
  case (Cons c cs)
  then obtain ws where ws: "cs = rstrip cs @ ws" "\<forall>x \<in> set ws. isspace x"
    by blast
  show ?case
  proof (cases "rstrip cs = [] \<and> isspace c")
    case True
    then have "\<forall>x \<in> set (c # cs). isspace x"
      by (simp add: rstrip_Nil_iff)
    with True show ?thesis
      by (intro exI [of _ "c # cs"]) (simp add: Let_def)
  next
    case False
    then have "rstrip (c # cs) = c # rstrip cs"
      by (auto simp: Let_def)
    with ws show ?thesis
      by (intro exI [of _ ws]) simp
  qed
qed

lemma rstrip_last: "rstrip s \<noteq> [] \<Longrightarrow> \<not> isspace (last (rstrip s))"
  by (induction s) (auto simp: Let_def split: if_splits)

lemma rstrip_eq_rev_dropWhile: "rstrip s = rev (dropWhile isspace (rev s))"
proof (induction s)
  case Nil
  show ?case by simp
next
  case (Cons c cs)
  show ?case
  proof (cases "\<forall>x \<in> set cs. isspace x")
    case True
    then have "dropWhile isspace (rev cs @ [c]) = dropWhile isspace [c]"
      by (simp add: dropWhile_append)
    with True show ?thesis
      using rstrip_Nil_iff [of cs] by (simp add: Let_def)
  next
    case False
    then have "dropWhile isspace (rev cs @ [c]) = dropWhile isspace (rev cs) @ [c]"
      by (auto simp: dropWhile_append)
    with False Cons show ?thesis
      using rstrip_Nil_iff [of cs] by (simp add: Let_def)
  qed
qed

lemma str_split_not_Nil: "str_split sep s \<noteq> []"
  by (induction s) (auto split: list.splits)

lemma str_split_no_sep: "p \<in> set (str_split sep s) \<Longrightarrow> sep \<notin> set p"
  by (induction s arbitrary: p) (auto split: if_splits list.splits)

lemma str_join_split: "str_join sep (str_split sep s) = s"
proof (induction s)
  case Nil
  show ?case by simp
next
  case (Cons c cs)
  obtain p ps where ps: "str_split sep cs = p # ps"
    using str_split_not_Nil [of sep cs] by (cases "str_split sep cs") auto
  with Cons show ?case
    by (cases ps) auto
qed

lemma str_split_length: "length (str_split sep s) = Suc (count_list s sep)"
  by (induction s) (auto split: list.splits simp: str_split_not_Nil)

subsection \<open>Locating the preprocessed data\<close>

text \<open>
  Claim C1. When the marker file \<^verbatim>\<open>latest\<close> of the input directory does not exist,
  \<open>get_latest_data_dir\<close> raises the module's own exception, and so do
  \<open>get_train_eval_files\<close> and \<open>get_labels\<close>, which call it first. The message is
  \<^verbatim>\<open>Cannot find "latest" file in "<input_dir>". Please use a preprocessing output dir.\<close>
  (\<open>CHR 0x22\<close> is the double quote): it names the input directory and tells the caller
  to use a preprocessing output directory. When the marker file exists, none of the three
  raises this exception, whatever its message; what they can still raise comes from the
  I/O layer.
\<close>

theorem latest_missing_raises:
  "(\<not> file_exists env (path_join input_dir ''latest'') \<longrightarrow>
      get_latest_data_dir env input_dir =
        Inl (Exception (''Cannot find '' @ [CHR 0x22] @ ''latest'' @ [CHR 0x22] @ '' file in ''
                        @ [CHR 0x22] @ input_dir @ [CHR 0x22]
                        @ ''. Please use a preprocessing output dir.'')) \<and>
      get_train_eval_files env input_dir =
        Inl (Exception (''Cannot find '' @ [CHR 0x22] @ ''latest'' @ [CHR 0x22] @ '' file in ''
                        @ [CHR 0x22] @ input_dir @ [CHR 0x22]
                        @ ''. Please use a preprocessing output dir.'')) \<and>
      get_labels env input_dir =
        Inl (Exception (''Cannot find '' @ [CHR 0x22] @ ''latest'' @ [CHR 0x22] @ '' file in ''
                        @ [CHR 0x22] @ input_dir @ [CHR 0x22]
                        @ ''. Please use a preprocessing output dir.''))) \<and>
   (file_exists env (path_join input_dir ''latest'') \<longrightarrow>
      (\<forall>m. get_latest_data_dir env input_dir \<noteq> Inl (Exception m) \<and>
           get_train_eval_files env input_dir \<noteq> Inl (Exception m) \<and>
           get_labels env input_dir \<noteq> Inl (Exception m)))"
  by (auto simp: get_latest_data_dir_def get_train_eval_files_def get_labels_def Let_def
      split: sum.splits)

theorem latest_missing_raises_witness:
  "get_latest_data_dir example_env ''gs://bucket/raw'' =
     Inl (Exception (''Cannot find '' @ [CHR 0x22] @ ''latest'' @ [CHR 0x22] @ '' file in ''
                     @ [CHR 0x22] @ ''gs://bucket/raw'' @ [CHR 0x22]
                     @ ''. Please use a preprocessing output dir.'')) \<and>
   (\<forall>m. get_labels example_env ''out'' \<noteq> Inl (Exception m))"
  using latest_missing_raises [of example_env "''gs://bucket/raw''"]
    latest_missing_raises [of example_env "''out''"]
  by (simp add: example_env_def path_join_def)

text \<open>
  Claim C5. When the marker file exists (and the I/O layer returns what is asked of it:
  the marker's content and the two listings), the data directory is the input directory
  joined with the marker's content, trailing whitespace stripped, and
  \<open>get_train_eval_files\<close> returns the pair of the files matching
  \<^verbatim>\<open>train*.tfrecord.gz\<close> in that directory and of the files matching
  \<^verbatim>\<open>eval*.tfrecord.gz\<close> in it, in this order.
\<close>

theorem get_train_eval_files_result:
  assumes "file_exists env (path_join input_dir ''latest'')"
    and "open_local_or_gcs env (path_join input_dir ''latest'') = Inr content"
    and "glob_files env (path_join (path_join input_dir (rstrip content)) ''train*.tfrecord.gz'')
           = Inr train_files"
    and "glob_files env (path_join (path_join input_dir (rstrip content)) ''eval*.tfrecord.gz'')
           = Inr eval_files"
  shows "get_latest_data_dir env input_dir = Inr (path_join input_dir (rstrip content)) \<and>
         get_train_eval_files env input_dir = Inr (train_files, eval_files)"
  using assms by (simp add: get_latest_data_dir_def get_train_eval_files_def)

theorem get_train_eval_files_result_witness:
  "get_latest_data_dir example_env ''out'' = Inr ''out/v3'' \<and>
   get_train_eval_files example_env ''out''
     = Inr ([''out/v3/train-0.tfrecord.gz'', ''out/v3/train-1.tfrecord.gz''],
            [''out/v3/eval-0.tfrecord.gz''])"
  using get_train_eval_files_result [of example_env "''out''" "''v3'' @ [CHR 0x0A]"
      "[''out/v3/train-0.tfrecord.gz'', ''out/v3/train-1.tfrecord.gz'']"
      "[''out/v3/eval-0.tfrecord.gz'']"]
  by (simp add: example_env_def example_files_def path_join_def isspace_def)

text \<open>
  Claim C6. When the marker file exists (and the I/O layer returns the marker's content
  and the content of the labels file), \<open>get_labels\<close> returns the content of the file
  \<^verbatim>\<open>labels\<close> of the data directory, trailing whitespace stripped, split at every
  line feed.
\<close>

theorem get_labels_result:
  assumes "file_exists env (path_join input_dir ''latest'')"
    and "open_local_or_gcs env (path_join input_dir ''latest'') = Inr content"
    and "open_local_or_gcs env (path_join (path_join input_dir (rstrip content)) ''labels'')
           = Inr labels_content"
  shows "get_labels env input_dir = Inr (str_split (CHR 0x0A) (rstrip labels_content))"
  using assms by (simp add: get_latest_data_dir_def get_labels_def)

theorem get_labels_result_witness:
  "get_labels example_env ''out'' = Inr [''daisy'', ''rose'', ''tulip'']"
  using get_labels_result [of example_env "''out''" "''v3'' @ [CHR 0x0A]"
      "''daisy'' @ [CHR 0x0A] @ ''rose'' @ [CHR 0x0A] @ ''tulip'' @ [CHR 0x0A]"]
  by (simp add: example_env_def path_join_def isspace_def)

subsection \<open>Building the input pipeline\<close>

lemma extend_matching_ok:
  "\<forall>path \<in> set paths. get_matching_files env path = Inr (matching path) \<Longrightarrow>
   extend_matching env paths files = Inr (files @ concat (map matching paths))"
  by (induction paths arbitrary: files) auto

lemma collect_files_ok:
  "\<forall>e \<in> set input_files. \<forall>path \<in> set (str_split CHR '','' e).
      get_matching_files env path = Inr (matching path) \<Longrightarrow>
   collect_files env input_files files
     = Inr (files @ concat (map (\<lambda>e. concat (map matching (str_split CHR '','' e))) input_files))"
proof (induction input_files arbitrary: files)
  case Nil
  show ?case by simp
next
  case (Cons e es)
  have inner: "extend_matching env (str_split CHR '','' e) files
                 = Inr (files @ concat (map matching (str_split CHR '','' e)))"
    using Cons.prems by (intro extend_matching_ok) simp
  have outer: "collect_files env es (files @ concat (map matching (str_split CHR '','' e)))
                 = Inr ((files @ concat (map matching (str_split CHR '','' e)))
                        @ concat (map (\<lambda>e. concat (map matching (str_split CHR '','' e))) es))"
    using Cons.prems by (intro Cons.IH) simp
  show ?case
    by (simp add: inner outer)
qed

lemma read_examples_collected:
  assumes "collect_files env input_files [] = Inr files"
  shows "read_examples TF env input_files batch_size shuffle num_epochs =
           (let examples = \<lparr>reader_options = GZIP,
                             reader_queue = \<lparr>producer_string_tensor = files,
                                              producer_num_epochs = or_None num_epochs,
                                              producer_shuffle = shuffle\<rparr>,
                             reader_num_records = batch_size\<rparr>;
                call = (if shuffle
                        then Shuffle_batch examples batch_size
                               (1000 + (cpu_count env + 3) * batch_size) 1000 True (cpu_count env)
                        else Batch examples batch_size
                               ((cpu_count env + 3) * batch_size) True (cpu_count env))
            in case tensorflow_raises TF call of
                 None \<Rightarrow> Inr call
               | Some x \<Rightarrow> Inl (External x))"
proof (cases shuffle)
  case True
  with assms show ?thesis
    by (cases "string_input_producer_raises TF
                 \<lparr>producer_string_tensor = files, producer_num_epochs = or_None num_epochs,
                  producer_shuffle = True\<rparr>";
        cases "read_up_to_raises TF
                 \<lparr>reader_options = GZIP,
                  reader_queue = \<lparr>producer_string_tensor = files,
                                   producer_num_epochs = or_None num_epochs,
                                   producer_shuffle = True\<rparr>,
                  reader_num_records = batch_size\<rparr>")
      (simp_all add: read_examples_def tf_string_input_producer_def tf_read_up_to_def
        tf_shuffle_batch_def tensorflow_raises_def Let_def split: option.split)
next
  case False
  with assms show ?thesis
    by (cases "string_input_producer_raises TF
                 \<lparr>producer_string_tensor = files, producer_num_epochs = or_None num_epochs,
                  producer_shuffle = False\<rparr>";
        cases "read_up_to_raises TF
                 \<lparr>reader_options = GZIP,
                  reader_queue = \<lparr>producer_string_tensor = files,
                                   producer_num_epochs = or_None num_epochs,
                                   producer_shuffle = False\<rparr>,
                  reader_num_records = batch_size\<rparr>")
      (simp_all add: read_examples_def tf_string_input_producer_def tf_read_up_to_def
        tf_batch_def tensorflow_raises_def Let_def split: option.split)
qed

text \<open>
  Where TensorFlow refuses a call, \<open>read_examples\<close> raises and no pipeline is built: no
  file matched, or a batch size that is not positive.
\<close>

lemma read_examples_no_files:
  "read_examples example_tensorflow example_env [''out/v3/nothing*.tfrecord.gz''] 32 True None
     = Inl (External ''ValueError'')"
  by (simp add: read_examples_def tf_string_input_producer_def example_env_def
      example_files_def example_tensorflow_def or_None_def)

lemma read_examples_no_batch_size:
  "read_examples example_tensorflow example_env [''out/v3/train*.tfrecord.gz''] 0 False None
     = Inl (External ''ValueError'')"
  by (simp add: read_examples_def tf_string_input_producer_def tf_read_up_to_def tf_batch_def
      example_env_def example_files_def example_tensorflow_def or_None_def)



text \<open>
  Claim C8. \<open>read_examples\<close> treats \<open>num_epochs = 0\<close> exactly as the default
  \<^verbatim>\<open>None\<close>: the two calls give the same result, and the filename queue is built with
  \<^verbatim>\<open>num_epochs = None\<close>, which TensorFlow reads as no limit on the epochs. Any other
  number is passed on as it is.
\<close>

theorem read_examples_zero_epochs:
  "read_examples TF env input_files batch_size shuffle (Some 0)
     = read_examples TF env input_files batch_size shuffle None \<and>
   (\<forall>p. read_examples TF env input_files batch_size shuffle (Some 0) = Inr p \<longrightarrow>
        producer_num_epochs (reader_queue (op_tensors p)) = None) \<and>
   (\<forall>p n. n \<noteq> 0 \<longrightarrow> read_examples TF env input_files batch_size shuffle (Some n) = Inr p \<longrightarrow>
        producer_num_epochs (reader_queue (op_tensors p)) = Some n)"
proof (cases "collect_files env input_files []")
  case (Inl err)
  then show ?thesis
    by (simp add: read_examples_def)
next
  case (Inr files)
  have epochs: "producer_num_epochs (reader_queue (op_tensors p)) = or_None num_epochs"
    if "read_examples TF env input_files batch_size shuffle num_epochs = Inr p"
    for p num_epochs
    using that unfolding read_examples_collected [OF Inr]
    by (auto simp: Let_def split: option.splits if_splits)
  have same: "read_examples TF env input_files batch_size shuffle (Some 0)
                = read_examples TF env input_files batch_size shuffle None"
    unfolding read_examples_collected [OF Inr] by (simp add: or_None_def)
  show ?thesis
    using same epochs [of "Some 0"] epochs by (simp add: or_None_def)
qed

theorem read_examples_zero_epochs_witness:
  "\<exists>p. read_examples example_tensorflow example_env [''out/v3/eval*.tfrecord.gz'']
         8 False (Some 0) = Inr p \<and>
       producer_num_epochs (reader_queue (op_tensors p)) = None \<and>
       read_examples example_tensorflow example_env [''out/v3/eval*.tfrecord.gz'']
         8 False None = Inr p"
proof -
  obtain p where
    p: "read_examples example_tensorflow example_env [''out/v3/eval*.tfrecord.gz'']
          8 False (Some 0) = Inr p"
    by (simp add: read_examples_def tf_string_input_producer_def tf_read_up_to_def
        tf_batch_def example_env_def example_files_def example_tensorflow_def or_None_def)
  note zero = read_examples_zero_epochs
    [of example_tensorflow example_env "[''out/v3/eval*.tfrecord.gz'']" 8 False]
  have same: "read_examples example_tensorflow example_env [''out/v3/eval*.tfrecord.gz'']
                8 False None = Inr p"
    using zero p by metis
  have "producer_num_epochs (reader_queue (op_tensors p)) = None"
    using zero p by blast
  with p same show ?thesis
    by blast
qed

text \<open>
  Claim C9. Every entry of \<open>input_files\<close> is split at its commas and every part is
  expanded by file matching (\<open>matching\<close> is what the matches return, when every match
  returns): the files of the pipeline \<open>read_examples\<close> asks TensorFlow for are the
  concatenation, over the entries in order and the parts of each entry in order, of the
  files matching each part. \<open>read_examples\<close> returns this pipeline when TensorFlow
  raises on none of the calls that build it, and raises TensorFlow's exception
  otherwise; it returns no other pipeline.
\<close>

theorem read_examples_files:
  assumes "\<forall>e \<in> set input_files. \<forall>path \<in> set (str_split CHR '','' e).
             get_matching_files env path = Inr (matching path)"
  shows "\<exists>call. producer_string_tensor (reader_queue (op_tensors call))
             = concat (map (\<lambda>e. concat (map matching (str_split CHR '','' e))) input_files) \<and>
           read_examples TF env input_files batch_size shuffle num_epochs
             = (case tensorflow_raises TF call of
                  None \<Rightarrow> Inr call
                | Some x \<Rightarrow> Inl (External x)) \<and>
           (\<forall>p. read_examples TF env input_files batch_size shuffle num_epochs = Inr p
                \<longrightarrow> p = call)"
proof -
  let ?files = "concat (map (\<lambda>e. concat (map matching (str_split CHR '','' e))) input_files)"
  let ?examples = "\<lparr>reader_options = GZIP,
                     reader_queue = \<lparr>producer_string_tensor = ?files,
                                      producer_num_epochs = or_None num_epochs,
                                      producer_shuffle = shuffle\<rparr>,
                     reader_num_records = batch_size\<rparr>"
  let ?call = "if shuffle
               then Shuffle_batch ?examples batch_size
                      (1000 + (cpu_count env + 3) * batch_size) 1000 True (cpu_count env)
               else Batch ?examples batch_size
                      ((cpu_count env + 3) * batch_size) True (cpu_count env)"
  have collected: "collect_files env input_files [] = Inr ?files"
    using collect_files_ok [OF assms, of "[]"] by simp
  have run: "read_examples TF env input_files batch_size shuffle num_epochs
               = (case tensorflow_raises TF ?call of
                    None \<Rightarrow> Inr ?call
                  | Some x \<Rightarrow> Inl (External x))"
    using read_examples_collected [OF collected, of TF batch_size shuffle num_epochs]
    by (simp only: Let_def)
  have only: "\<forall>p. read_examples TF env input_files batch_size shuffle num_epochs = Inr p
                \<longrightarrow> p = ?call"
    unfolding run by (simp split: option.split)
  have "producer_string_tensor (reader_queue (op_tensors ?call)) = ?files"
    by simp
  with run only show ?thesis
    by (intro exI [of _ ?call]) (simp only: simp_thms)
qed

theorem read_examples_files_witness:
  "\<exists>p. read_examples example_tensorflow example_env
         [''out/v3/train*.tfrecord.gz,out/v3/eval*.tfrecord.gz'', ''out/v3/eval*.tfrecord.gz'']
         8 False None = Inr p \<and>
       producer_string_tensor (reader_queue (op_tensors p))
         = [''out/v3/train-0.tfrecord.gz'', ''out/v3/train-1.tfrecord.gz'',
            ''out/v3/eval-0.tfrecord.gz'', ''out/v3/eval-0.tfrecord.gz'']"
proof -
  obtain p where
    p: "read_examples example_tensorflow example_env
          [''out/v3/train*.tfrecord.gz,out/v3/eval*.tfrecord.gz'', ''out/v3/eval*.tfrecord.gz'']
          8 False None = Inr p"
    by (simp add: read_examples_def tf_string_input_producer_def tf_read_up_to_def
        tf_batch_def example_env_def example_files_def example_tensorflow_def or_None_def)
  have "\<forall>e \<in> set [''out/v3/train*.tfrecord.gz,out/v3/eval*.tfrecord.gz'',
                   ''out/v3/eval*.tfrecord.gz''].
          \<forall>path \<in> set (str_split CHR '','' e).
            get_matching_files example_env path = Inr (example_files path)"
    by (simp add: example_env_def)
  from read_examples_files [OF this, of example_tensorflow 8 False None] p
  show ?thesis
    by (auto simp: example_files_def)
qed

subsection \<open>Command-line arguments\<close>

lemma list_contains_iff: "list_contains xs x \<longleftrightarrow> x \<in> set xs"
  by (induction xs) auto

lemma list_extend_append: "list_extend xs items = xs @ items"
  by (induction items arbitrary: xs) auto

text \<open>
  Claim C2. \<open>override_if_not_in_args\<close> leaves \<open>args\<close> as it is when \<open>flag\<close> is one
  of its elements; otherwise \<open>args\<close> becomes \<open>args\<close> followed by \<open>flag\<close> and
  \<open>argument\<close>, in this order. Nothing else of \<open>args\<close> changes in either case.
\<close>

theorem override_if_not_in_args_effect:
  "(flag \<in> set args \<longrightarrow> override_if_not_in_args flag argument args = args) \<and>
   (flag \<notin> set args \<longrightarrow> override_if_not_in_args flag argument args = args @ [flag, argument])"
  by (simp add: override_if_not_in_args_def list_contains_iff list_extend_append)

theorem override_if_not_in_args_effect_witness:
  "override_if_not_in_args ''--batch_size'' ''32'' [''--batch_size'', ''8'']
     = [''--batch_size'', ''8''] \<and>
   override_if_not_in_args ''--batch_size'' ''32'' [''--max_steps'', ''8'']
     = [''--max_steps'', ''8'', ''--batch_size'', ''32'']"
  using override_if_not_in_args_effect [of "''--batch_size''" "[''--batch_size'', ''8'']" "''32''"]
    override_if_not_in_args_effect [of "''--batch_size''" "[''--max_steps'', ''8'']" "''32''"]
  by simp

text \<open>
  Claim C10. The membership test looks at every element of \<open>args\<close>, whatever its
  position: when \<open>flag\<close> stands anywhere in \<open>args\<close>, also right after another flag, as
  that flag's value, nothing is appended.
\<close>

theorem override_if_not_in_args_any_position:
  "(\<forall>i < length args. args ! i = flag \<longrightarrow> override_if_not_in_args flag argument args = args) \<and>
   override_if_not_in_args flag argument (before @ [other_flag, flag] @ rest)
     = before @ [other_flag, flag] @ rest"
  by (auto simp: override_if_not_in_args_def list_contains_iff)

theorem override_if_not_in_args_any_position_witness:
  "(1::nat) < length [''--job_name'', ''--region''] \<and>
   [''--job_name'', ''--region''] ! 1 = ''--region'' \<and>
   override_if_not_in_args ''--region'' ''us-central1'' [''--job_name'', ''--region'']
     = [''--job_name'', ''--region'']"
proof -
  have "\<forall>i < length [''--job_name'', ''--region''].
          [''--job_name'', ''--region''] ! i = ''--region'' \<longrightarrow>
          override_if_not_in_args ''--region'' ''us-central1'' [''--job_name'', ''--region'']
            = [''--job_name'', ''--region'']"
    using override_if_not_in_args_any_position
      [where args = "[''--job_name'', ''--region'']" and flag = "''--region''"
         and argument = "''us-central1''"]
    by (rule conjunct1)
  from this [THEN spec, of 1] show ?thesis
    by simp
qed

subsection \<open>Aggregated metrics\<close>

lemma run_step_loss:
  "run_step (fst (loss T loss_value)) feed s
     = s\<lparr>total_loss := f_add T (total_loss s) (loss_value feed), loss_count := loss_count s + 1\<rparr>"
  by (simp add: run_step_def loss_def)

lemma run_steps_loss:
  "run_steps (fst (loss T loss_value)) feeds s
     = s\<lparr>total_loss := foldl (f_add T) (total_loss s) (map loss_value feeds),
         loss_count := loss_count s + of_nat (length feeds)\<rparr>"
proof (induction feeds arbitrary: s)
  case Nil
  show ?case by (simp add: run_steps_def)
next
  case (Cons feed feeds)
  have "run_steps (fst (loss T loss_value)) (feed # feeds) s
          = run_steps (fst (loss T loss_value)) feeds (run_step (fst (loss T loss_value)) feed s)"
    by (simp add: run_steps_def)
  then show ?case
    by (simp add: Cons.IH run_step_loss)
qed

text \<open>
  The two update ops of a metric write different variables, so the order in which a
  session runs them within a step does not matter.
\<close>

lemma loss_updates_commute:
  "run_step (rev (fst (loss T loss_value))) feed s = run_step (fst (loss T loss_value)) feed s"
  by (simp add: run_step_def loss_def)

lemma accuracy_updates_commute:
  "run_step (rev (fst (accuracy T logits labels))) feed s
     = run_step (fst (accuracy T logits labels)) feed s"
  by (simp add: run_step_def accuracy_def)

lemma sint_of_nat_small:
  assumes "n < 2 ^ 31"
  shows "sint (of_nat n :: 32 word) = int n"
proof -
  have "sint (word_of_int (int n) :: 32 word) = (int n + 2 ^ 31) mod 2 ^ 32 - 2 ^ 31"
    using int_word_sint [of "int n", where 'a = 32] by simp
  also have "\<dots> = int n"
    using assms by simp
  finally show ?thesis
    by simp
qed

lemma foldl_add_word: "foldl (+) a xs = a + foldl (+) (0 :: 32 word) xs"
proof (induction xs arbitrary: a)
  case Nil
  show ?case by simp
next
  case (Cons x xs)
  show ?case
    using Cons.IH [of "a + x"] Cons.IH [of x] by (simp add: add.assoc)
qed

lemma reduce_sum_Cons: "reduce_sum (x # xs) = x + reduce_sum xs"
  using foldl_add_word [of x xs] by (simp add: reduce_sum_def)

lemma reduce_sum_correct: "reduce_sum (map cast_int32 bs) = of_nat (count_list bs True)"
  by (induction bs) (auto simp: reduce_sum_Cons cast_int32_def, simp add: reduce_sum_def)

lemma count_list_le_length: "count_list xs x \<le> length xs"
  by (induction xs) auto

lemma count_list_map_Not: "count_list (map Not bs) True = length bs - count_list bs True"
proof (induction bs)
  case Nil
  show ?case by simp
next
  case (Cons b bs)
  then show ?case
    using count_list_le_length [of bs True] by (cases b) (simp_all add: Suc_diff_le)
qed

lemma reduce_sum_incorrect:
  "reduce_sum (map cast_int32 (map Not bs)) = of_nat (length bs - count_list bs True)"
  using reduce_sum_correct [of "map Not bs"] by (simp only: count_list_map_Not)

lemma run_step_accuracy:
  "run_step (fst (accuracy T logits labels)) feed s
     = s\<lparr>correct_count := correct_count s
              + of_nat (count_list (in_top_k T (logits feed) (labels feed) 1) True),
         incorrect_count := incorrect_count s
              + of_nat (length (in_top_k T (logits feed) (labels feed) 1)
                        - count_list (in_top_k T (logits feed) (labels feed) 1) True)\<rparr>"
  by (simp add: run_step_def accuracy_def reduce_sum_correct count_list_map_Not del: map_map)

lemma run_steps_accuracy:
  "run_steps (fst (accuracy T logits labels)) feeds s
     = s\<lparr>correct_count := correct_count s
              + of_nat (\<Sum>feed\<leftarrow>feeds. count_list (in_top_k T (logits feed) (labels feed) 1) True),
         incorrect_count := incorrect_count s
              + of_nat (\<Sum>feed\<leftarrow>feeds. length (in_top_k T (logits feed) (labels feed) 1)
                        - count_list (in_top_k T (logits feed) (labels feed) 1) True)\<rparr>"
proof (induction feeds arbitrary: s)
  case Nil
  show ?case by (simp add: run_steps_def)
next
  case (Cons feed feeds)
  have "run_steps (fst (accuracy T logits labels)) (feed # feeds) s
          = run_steps (fst (accuracy T logits labels)) feeds
              (run_step (fst (accuracy T logits labels)) feed s)"
    by (simp add: run_steps_def)
  then show ?case
    by (simp add: Cons.IH run_step_accuracy add.assoc)
qed

lemma sum_count_plus_rest:
  "(\<Sum>x\<leftarrow>xs. count_list (f x) True) + (\<Sum>x\<leftarrow>xs. length (f x) - count_list (f x) True)
     = (\<Sum>x\<leftarrow>xs. length (f x))"
proof (induction xs)
  case Nil
  show ?case by simp
next
  case (Cons x xs)
  then show ?case
    using count_list_le_length [of "f x" True] by simp
qed

lemma sint_counts:
  assumes "c + i = n" and "n < 2 ^ 31"
  shows "sint (of_nat c :: 32 word) = int c" and "sint (of_nat i :: 32 word) = int i"
    and "sint (of_nat c + of_nat i :: 32 word) = int n"
proof -
  have "c < 2 ^ 31" and "i < 2 ^ 31"
    using assms by linarith+
  then show "sint (of_nat c :: 32 word) = int c" and "sint (of_nat i :: 32 word) = int i"
    by (simp_all only: sint_of_nat_small)
  have "(of_nat c + of_nat i :: 32 word) = of_nat n"
    by (simp only: of_nat_add [symmetric] assms(1))
  then show "sint (of_nat c + of_nat i :: 32 word) = int n"
    by (simp only: sint_of_nat_small [OF assms(2)])
qed

lemma accuracy_op_eq:
  "snd (accuracy T logits labels)
     = (\<lambda>v. f_div T (f_cast T (correct_count v)) (f_cast T (correct_count v + incorrect_count v)))"
  by (simp add: accuracy_def)

lemma accuracy_counts:
  "correct_count (run_steps (fst (accuracy T logits labels)) feeds accuracy_initial)
     = of_nat (\<Sum>feed\<leftarrow>feeds. count_list (in_top_k T (logits feed) (labels feed) 1) True)"
  "incorrect_count (run_steps (fst (accuracy T logits labels)) feeds accuracy_initial)
     = of_nat (\<Sum>feed\<leftarrow>feeds. length (in_top_k T (logits feed) (labels feed) 1)
                 - count_list (in_top_k T (logits feed) (labels feed) 1) True)"
  by (simp_all add: run_steps_accuracy accuracy_initial_def)

text \<open>
  Claim C3. \<open>loss\<close> keeps a running sum of the loss values and a running count of
  the update steps: both start at zero, and running the update ops of a step adds the
  step's \<open>loss_value\<close> to the sum and 1 to the count. After the steps fed \<open>feeds\<close> the
  sum is the \<^verbatim>\<open>float32\<close> sum of the loss values in the order of the steps, and the
  count is the number of steps (as an \<^verbatim>\<open>int32\<close>; below \<open>2 ^ 31\<close> steps its signed
  value is that number). The loss op is the sum divided by the count cast to
  \<^verbatim>\<open>float32\<close>: the mean of the loss values aggregated so far.
\<close>

theorem loss_running_mean:
  "(let (update_ops, loss_op) = loss T loss_value;
        s = run_steps update_ops feeds (loss_initial T)
    in total_loss (loss_initial T) = f_zero T \<and> loss_count (loss_initial T) = 0 \<and>
       (\<forall>feed v. run_step update_ops feed v
          = v\<lparr>total_loss := f_add T (total_loss v) (loss_value feed),
              loss_count := loss_count v + 1\<rparr>) \<and>
       total_loss s = foldl (f_add T) (f_zero T) (map loss_value feeds) \<and>
       loss_count s = of_nat (length feeds) \<and>
       (length feeds < 2 ^ 31 \<longrightarrow> sint (loss_count s) = int (length feeds)) \<and>
       (\<forall>v. loss_op v = f_div T (total_loss v) (f_cast T (loss_count v))))"
proof -
  have ops: "loss T loss_value = (fst (loss T loss_value), snd (loss T loss_value))"
    by simp
  have op: "snd (loss T loss_value) = (\<lambda>v. f_div T (total_loss v) (f_cast T (loss_count v)))"
    by (simp add: loss_def)
  show ?thesis
    by (subst ops)
      (simp add: Let_def run_steps_loss run_step_loss op loss_initial_def sint_of_nat_small)
qed

theorem loss_running_mean_witness:
  "(let (update_ops, loss_op) = loss example_tf (\<lambda>feed. feed);
        s = run_steps update_ops [1 / 2, 3 / 2, 4] (loss_initial example_tf)
    in total_loss s = 6 \<and> sint (loss_count s) = 3 \<and> loss_op s = 2)"
  using loss_running_mean [of example_tf "\<lambda>feed. feed" "[1 / 2, 3 / 2, 4]"]
  by (simp add: example_tf_def Let_def split: prod.splits)

text \<open>
  Claim C4. \<open>accuracy\<close> keeps running counts of the correct and of the incorrect
  predictions: both start at zero, and running the update ops of a step adds the number
  of labels of the batch that \<^verbatim>\<open>in_top_k\<close> finds in the top 1 of their logits to the
  correct count, and the rest of the batch to the incorrect count. After the steps fed
  \<open>feeds\<close> the counts are the totals over all steps (as \<^verbatim>\<open>int32\<close>; while fewer than
  \<open>2 ^ 31\<close> examples were seen, their signed values are these totals and their sum is
  the number of examples). The accuracy op is the correct count divided by the sum of
  the two counts, both cast to \<^verbatim>\<open>float32\<close>.
\<close>

theorem accuracy_running_ratio:
  "(let (update_ops, accuracy_op) = accuracy T logits labels;
        is_correct = (\<lambda>feed. in_top_k T (logits feed) (labels feed) 1);
        correct = (\<lambda>feed. count_list (is_correct feed) True);
        incorrect = (\<lambda>feed. length (is_correct feed) - correct feed);
        s = run_steps update_ops feeds accuracy_initial
    in correct_count accuracy_initial = 0 \<and> incorrect_count accuracy_initial = 0 \<and>
       (\<forall>feed v. run_step update_ops feed v
          = v\<lparr>correct_count := correct_count v + of_nat (correct feed),
              incorrect_count := incorrect_count v + of_nat (incorrect feed)\<rparr>) \<and>
       correct_count s = of_nat (\<Sum>feed\<leftarrow>feeds. correct feed) \<and>
       incorrect_count s = of_nat (\<Sum>feed\<leftarrow>feeds. incorrect feed) \<and>
       ((\<Sum>feed\<leftarrow>feeds. length (is_correct feed)) < 2 ^ 31 \<longrightarrow>
          sint (correct_count s) = int (\<Sum>feed\<leftarrow>feeds. correct feed) \<and>
          sint (incorrect_count s) = int (\<Sum>feed\<leftarrow>feeds. incorrect feed) \<and>
          sint (correct_count s + incorrect_count s)
            = int (\<Sum>feed\<leftarrow>feeds. length (is_correct feed))) \<and>
       (\<forall>v. accuracy_op v
          = f_div T (f_cast T (correct_count v))
                    (f_cast T (correct_count v + incorrect_count v))))"
proof -
  have ops: "accuracy T logits labels
               = (fst (accuracy T logits labels), snd (accuracy T logits labels))"
    by simp
  note total = sum_count_plus_rest [of "\<lambda>feed. in_top_k T (logits feed) (labels feed) 1" feeds]
  show ?thesis
    apply (subst ops)
    apply (simp only: Let_def prod.case accuracy_counts)
    apply (intro conjI allI impI)
           apply (simp add: accuracy_initial_def)
          apply (simp add: accuracy_initial_def)
         apply (rule run_step_accuracy)
        apply (rule refl)
       apply (rule refl)
      apply (erule sint_counts(1) [OF total])
     apply (erule sint_counts(2) [OF total])
    apply (erule sint_counts(3) [OF total])
    apply (simp only: accuracy_op_eq)
    done
qed

theorem accuracy_running_ratio_witness:
  "(let (update_ops, accuracy_op) = accuracy example_tf fst snd;
        s = run_steps update_ops [([[1, 2], [3, 1]], [1, 1]), ([[1, 2]], [1])] accuracy_initial
    in sint (correct_count s) = 2 \<and> sint (incorrect_count s) = 1 \<and> accuracy_op s = 2 / 3)"
  using accuracy_running_ratio
    [of example_tf fst snd "[([[1, 2], [3, 1]], [1, 1]), ([[1, 2]], [1])]"]
  by (simp add: example_tf_def Let_def split: prod.splits)

end
